theory Spec2Isabelle
  imports Main
begin

section \<open>JavaScript values and built-ins the widget relies on\<close>

text \<open>
  Strings are lists of characters; one \<^typ>\<open>char\<close> stands for one code unit of the
  JavaScript string, restricted to the code units below 256.

  A parsed JSON value, as \<^verbatim>\<open>res.json()\<close> resolves it. A number is carried by its
  canonical JavaScript text (what \<^verbatim>\<open>String(n)\<close> gives: \<^verbatim>\<open>42\<close>, \<^verbatim>\<open>0.5\<close>, \<^verbatim>\<open>1e+21\<close>,
  \<^verbatim>\<open>Infinity\<close>); negative zero prints as \<^verbatim>\<open>0\<close>. Every observation the widget makes of a
  number (truthiness, \<^verbatim>\<open>String\<close>, \<^verbatim>\<open>JSON.stringify\<close>) is a function of that text.
  An object is the list of its own properties in enumeration order, keys distinct.
\<close>

datatype json =
    JNull
  | JBool bool
  | JNum string
  | JStr string
  | JArr "json list"
  | JObj "(string \<times> json) list"

text \<open>Property access \<^verbatim>\<open>j.key\<close> for the keys the widget reads (\<^verbatim>\<open>reply\<close>, \<^verbatim>\<open>replies\<close>, \<^verbatim>\<open>text\<close>):
  \<open>None\<close> is \<^verbatim>\<open>undefined\<close>. Arrays, strings, numbers and booleans have no property of
  these names.\<close>

fun get_prop :: "json \<Rightarrow> string \<Rightarrow> json option" where
  "get_prop (JObj kvs) k = map_of kvs k"
| "get_prop _ k = None"

text \<open>Truthiness of a value (\<^verbatim>\<open>if (v)\<close>, \<^verbatim>\<open>!v\<close>, \<^verbatim>\<open>a || b\<close>).\<close>

fun ToBoolean :: "json \<Rightarrow> bool" where
  "ToBoolean JNull = False"
| "ToBoolean (JBool b) = b"
| "ToBoolean (JNum n) = (n \<noteq> ''0'' \<and> n \<noteq> ''NaN'')"
| "ToBoolean (JStr s) = (s \<noteq> [])"
| "ToBoolean (JArr xs) = True"
| "ToBoolean (JObj kvs) = True"

fun join :: "string \<Rightarrow> string list \<Rightarrow> string" where
  "join sep [] = []"
| "join sep [x] = x"
| "join sep (x # y # ys) = x @ sep @ join sep (y # ys)"

text \<open>What a called function can throw. \<open>EndpointRequired\<close>, \<open>BadResponse\<close> and
  \<open>InvalidJSON\<close> are the three errors \<^verbatim>\<open>sendMessageToEndpoint\<close> constructs;
  \<open>FetchRejected\<close> is a rejection of \<^verbatim>\<open>fetch\<close>; \<open>TypeError\<close> is what a failed
  conversion to a string throws; \<open>HostError\<close> is anything the host's observer throws.\<close>

datatype js_error =
    EndpointRequired
  | FetchRejected string
  | BadResponse nat "string option"
  | InvalidJSON
  | TypeError
  | HostError string

text \<open>The results of a list of conversions, or the first error among them.\<close>

fun collect :: "(js_error + 'a) list \<Rightarrow> js_error + 'a list" where
  "collect [] = Inr []"
| "collect (Inl e # rs) = Inl e"
| "collect (Inr x # rs) = (case collect rs of Inl e \<Rightarrow> Inl e | Inr xs \<Rightarrow> Inr (x # xs))"

text \<open>The conversion \<^verbatim>\<open>String(v)\<close>. A primitive value prints as its text. An object
  is converted by its \<^verbatim>\<open>toString\<close> method: the inherited one gives
  \<^verbatim>\<open>[object Object]\<close>; an own property named \<^verbatim>\<open>toString\<close>, which in a parsed body is
  never a function, hides it, the inherited \<^verbatim>\<open>valueOf\<close> returns the object itself,
  and the conversion throws a \<^verbatim>\<open>TypeError\<close>. An array prints its elements joined by
  commas, a \<^verbatim>\<open>null\<close> element as the empty string, and throws when the conversion
  of an element throws.\<close>

fun String_js :: "json \<Rightarrow> js_error + string" where
  "String_js JNull = Inr ''null''"
| "String_js (JBool b) = Inr (if b then ''true'' else ''false'')"
| "String_js (JNum n) = Inr n"
| "String_js (JStr s) = Inr s"
| "String_js (JArr xs) =
     (case collect (map (\<lambda>x. if x = JNull then Inr [] else String_js x) xs) of
        Inl e \<Rightarrow> Inl e
      | Inr ss \<Rightarrow> Inr (join '','' ss))"
| "String_js (JObj kvs) =
     (if map_of kvs ''toString'' = None then Inr ''[object Object]'' else Inl TypeError)"

text \<open>The serializer \<^verbatim>\<open>JSON.stringify\<close> without indentation. \<open>quote_js\<close> is the string quoting of
  the serializer: the quote and the backslash are escaped, the control characters
  below 32 by their short form or as \<^verbatim>\<open>\u00XX\<close>.\<close>

definition hex_digit :: "nat \<Rightarrow> char" where
  "hex_digit n = (if n < 10 then char_of (48 + n) else char_of (87 + n))"

definition quote_char :: "char \<Rightarrow> string" where
  "quote_char c =
     (let n = (of_char c :: nat) in
      if n = 34 then [CHR 0x5C, CHR 0x22]
      else if n = 92 then [CHR 0x5C, CHR 0x5C]
      else if n = 8 then [CHR 0x5C, CHR ''b'']
      else if n = 12 then [CHR 0x5C, CHR ''f'']
      else if n = 10 then [CHR 0x5C, CHR ''n'']
      else if n = 13 then [CHR 0x5C, CHR ''r'']
      else if n = 9 then [CHR 0x5C, CHR ''t'']
      else if n < 32 then [CHR 0x5C, CHR ''u'', CHR ''0'', CHR ''0'',
                           hex_digit (n div 16), hex_digit (n mod 16)]
      else [c])"

definition quote_js :: "string \<Rightarrow> string" where
  "quote_js s = [CHR 0x22] @ concat (map quote_char s) @ [CHR 0x22]"

fun JSON_stringify :: "json \<Rightarrow> string" where
  "JSON_stringify JNull = ''null''"
| "JSON_stringify (JBool b) = (if b then ''true'' else ''false'')"
| "JSON_stringify (JNum n) =
     (if n = ''Infinity'' \<or> n = ''-Infinity'' \<or> n = ''NaN'' then ''null'' else n)"
| "JSON_stringify (JStr s) = quote_js s"
| "JSON_stringify (JArr xs) = ''['' @ join '','' (map JSON_stringify xs) @ '']''"
| "JSON_stringify (JObj kvs) =
     ''{'' @ join '','' (map (\<lambda>(k, v). quote_js k @ '':'' @ JSON_stringify v) kvs) @ ''}''"

text \<open>The method \<^verbatim>\<open>String.prototype.trim\<close>: the white space and line terminators among the
  code units below 256 are TAB, LF, VT, FF, CR, SPACE and NO-BREAK SPACE.\<close>

definition is_space :: "char \<Rightarrow> bool" where
  "is_space c = (of_char c \<in> {9, 10, 11, 12, 13, 32, 160 :: nat})"

definition trim :: "string \<Rightarrow> string" where
  "trim s = rev (dropWhile is_space (rev (dropWhile is_space s)))"


text \<open>A value that may be \<^verbatim>\<open>undefined\<close> is a \<^typ>\<open>json option\<close>. The tests the
  transport makes on such a value: \<^verbatim>\<open>typeof v === 'string'\<close>, \<^verbatim>\<open>Array.isArray(v)\<close>,
  truthiness and \<^verbatim>\<open>String(v)\<close>.\<close>

fun typeof_string :: "json option \<Rightarrow> string option" where
  "typeof_string (Some (JStr s)) = Some s"
| "typeof_string _ = None"

fun Array_isArray :: "json option \<Rightarrow> json list option" where
  "Array_isArray (Some (JArr xs)) = Some xs"
| "Array_isArray _ = None"

fun truthy :: "json option \<Rightarrow> bool" where
  "truthy None = False"
| "truthy (Some v) = ToBoolean v"

fun String_of :: "json option \<Rightarrow> js_error + string" where
  "String_of None = Inr ''undefined''"
| "String_of (Some v) = String_js v"

section \<open>The widget and its environment\<close>

text \<open>The object handed to the observer, \<^verbatim>\<open>{ who, text, sessionId }\<close>, with its
  property names as the host reads them.\<close>

definition notification :: "string \<Rightarrow> string \<Rightarrow> string \<Rightarrow> json" where
  "notification wh txt sid =
     JObj [(''who'', JStr wh), (''text'', JStr txt), (''sessionId'', JStr sid)]"

text \<open>The object \<^verbatim>\<open>{ message, sessionId, metadata: { origin } }\<close> that is serialized
  into the request body, and the call of \<^verbatim>\<open>fetch\<close> that carries it (always a POST of
  JSON without credentials); \<open>body\<close> is the object, the text sent is its
  \<^verbatim>\<open>JSON.stringify\<close>.\<close>

definition payload :: "string \<Rightarrow> string \<Rightarrow> string \<Rightarrow> json" where
  "payload msg sid href =
     JObj [(''message'', JStr msg), (''sessionId'', JStr sid),
           (''metadata'', JObj [(''origin'', JStr href)])]"

record request =
  url :: string
  body :: json

text \<open>What \<^verbatim>\<open>fetch\<close> settles to. Of a response the transport reads the status
  (\<^verbatim>\<open>res.ok\<close> is a status from 200 to 299), and then either \<^verbatim>\<open>res.text()\<close> or
  \<^verbatim>\<open>res.json()\<close>; \<open>None\<close> is a read that rejects.\<close>

record response =
  status :: nat
  res_text :: "string option"
  res_json :: "json option"

datatype fetch_outcome = Rejected string | Resolved response

definition ok :: "response \<Rightarrow> bool" where
  "ok res = (200 \<le> status res \<and> status res \<le> 299)"

text \<open>The children of the \<^verbatim>\<open>chat-widget-messages\<close> element: a message of class
  \<^verbatim>\<open>msg user\<close> or \<^verbatim>\<open>msg bot\<close> with its text, or a \<^verbatim>\<open>typing\<close> element with its
  \<^verbatim>\<open>data-typing-id\<close>.\<close>

datatype author = User | Bot

datatype entry = Msg author string | Typing nat

fun is_typing :: "entry \<Rightarrow> bool" where
  "is_typing (Typing t) = True"
| "is_typing (Msg a s) = False"

definition typing_count :: "entry list \<Rightarrow> nat" where
  "typing_count es = length (filter is_typing es)"

text \<open>The options the behaviour depends on. The observer is \<open>None\<close> unless the host
  gave a function; called on a notification it returns normally (\<open>None\<close>) or throws.\<close>

record options =
  endpoint :: string
  opt_sessionId :: "string option"
  onMessageReceived :: "(json \<Rightarrow> js_error option) option"

text \<open>The widget instance, followed by the parts of the environment its methods
  act on: the observer's invocations, the calls of \<^verbatim>\<open>fetch\<close>, the lines of
  \<^verbatim>\<open>console.error\<close> and the page's \<^verbatim>\<open>location.href\<close>. Styling, focus and scroll
  position are presentation and are left out.\<close>

record widget =
  opts :: options
  sessionId :: string
  isOpen :: bool
  messages :: "entry list"
  textarea_value :: string
  notified :: "json list"
  requests :: "request list"
  console_errors :: "js_error list"
  location_href :: string

text \<open>The constructor. \<open>rnd\<close> is the text \<^verbatim>\<open>Math.random().toString(36).slice(2,9)\<close>
  evaluates to; \<^verbatim>\<open>a || b\<close> takes \<^verbatim>\<open>b\<close> when \<^verbatim>\<open>a\<close> is \<^verbatim>\<open>null\<close> or the empty string.\<close>

definition constructor :: "options \<Rightarrow> string \<Rightarrow> string \<Rightarrow> widget" where
  "constructor os rnd href =
     \<lparr>opts = os,
      sessionId = (case opt_sessionId os of
                     None \<Rightarrow> ''sess_'' @ rnd
                   | Some s \<Rightarrow> if s = [] then ''sess_'' @ rnd else s),
      isOpen = False,
      messages = [],
      textarea_value = [],
      notified = [],
      requests = [],
      console_errors = [],
      location_href = href\<rparr>"

definition open_panel :: "widget \<Rightarrow> widget" where
  "open_panel w = w\<lparr>isOpen := True\<rparr>"

definition close_panel :: "widget \<Rightarrow> widget" where
  "close_panel w = w\<lparr>isOpen := False\<rparr>"

definition toggle :: "widget \<Rightarrow> widget" where
  "toggle w = (if isOpen w then close_panel w else open_panel w)"

text \<open>A method that can throw returns the thrown error, if any, beside the state
  it leaves.\<close>

definition apology :: string where
  "apology = ''Sorry, something went wrong. Please try again later.''"

definition appendMsg :: "string \<Rightarrow> string \<Rightarrow> widget \<Rightarrow> js_error option \<times> widget" where
  "appendMsg txt wh w =
     (let w1 = w\<lparr>messages := messages w @ [Msg (if wh = ''user'' then User else Bot) txt]\<rparr>
      in case onMessageReceived (opts w1) of
           None \<Rightarrow> (None, w1)
         | Some f \<Rightarrow>
             (let n = notification wh txt (sessionId w1);
                  w2 = w1\<lparr>notified := notified w1 @ [n]\<rparr>
              in case f n of
                   None \<Rightarrow> (None, w2)
                 | Some e \<Rightarrow> (None, w2)))"

definition showTyping :: "nat \<Rightarrow> widget \<Rightarrow> nat \<times> widget" where
  "showTyping now w = (now, w\<lparr>messages := messages w @ [Typing now]\<rparr>)"

definition hideTyping :: "nat \<Rightarrow> widget \<Rightarrow> widget" where
  "hideTyping dummy w = w\<lparr>messages := filter (\<lambda>n. \<not> is_typing n) (messages w)\<rparr>"

text \<open>The loop \<^verbatim>\<open>j.replies.forEach(r => this._appendMsg(String(r), 'bot'))\<close>; a
  throwing conversion or callback ends it, with the earlier elements appended.\<close>

fun forEach_appendMsg :: "json list \<Rightarrow> widget \<Rightarrow> js_error option \<times> widget" where
  "forEach_appendMsg [] w = (None, w)"
| "forEach_appendMsg (r # rs) w =
     (case String_js r of
        Inl e \<Rightarrow> (Some e, w)
      | Inr s \<Rightarrow>
         (case appendMsg s ''bot'' w of
            (Some e, w1) \<Rightarrow> (Some e, w1)
          | (None, w1) \<Rightarrow> forEach_appendMsg rs w1))"

text \<open>\<^verbatim>\<open>sendMessageToEndpoint\<close> in its two halves: up to the call of \<^verbatim>\<open>fetch\<close>, and from
  the settling of \<^verbatim>\<open>fetch\<close> on.\<close>

definition sendMessageToEndpoint_request :: "string \<Rightarrow> widget \<Rightarrow> js_error option \<times> widget" where
  "sendMessageToEndpoint_request msg w =
     (if endpoint (opts w) = [] then (Some EndpointRequired, w)
      else (None, w\<lparr>requests := requests w @
              [\<lparr>url = endpoint (opts w),
                body = payload msg (sessionId w) (location_href w)\<rparr>]\<rparr>))"

definition render_body :: "json \<Rightarrow> widget \<Rightarrow> js_error option \<times> widget" where
  "render_body j w =
     (case typeof_string (get_prop j ''reply'') of
        Some s \<Rightarrow> appendMsg s ''bot'' w
      | None \<Rightarrow>
         (case Array_isArray (get_prop j ''replies'') of
            Some rs \<Rightarrow> forEach_appendMsg rs w
          | None \<Rightarrow>
             if truthy (get_prop j ''text'')
             then (case String_of (get_prop j ''text'') of
                     Inl e \<Rightarrow> (Some e, w)
                   | Inr s \<Rightarrow> appendMsg s ''bot'' w)
             else appendMsg (JSON_stringify j) ''bot'' w))"

text \<open>A rejected \<^verbatim>\<open>res.json()\<close> is caught and replaced by \<^verbatim>\<open>null\<close>, and \<^verbatim>\<open>!j\<close> then
  throws for it as for every falsy body.\<close>

definition sendMessageToEndpoint_response :: "fetch_outcome \<Rightarrow> widget \<Rightarrow> js_error option \<times> widget" where
  "sendMessageToEndpoint_response net w =
     (case net of
        Rejected reason \<Rightarrow> (Some (FetchRejected reason), w)
      | Resolved res \<Rightarrow>
          if \<not> ok res then (Some (BadResponse (status res) (res_text res)), w)
          else (let j = (case res_json res of None \<Rightarrow> JNull | Some v \<Rightarrow> v)
                in if \<not> ToBoolean j then (Some InvalidJSON, w)
                   else render_body j w))"

definition sendMessageToEndpoint :: "string \<Rightarrow> fetch_outcome \<Rightarrow> widget \<Rightarrow> js_error option \<times> widget" where
  "sendMessageToEndpoint msg net w =
     (case sendMessageToEndpoint_request msg w of
        (Some e, w1) \<Rightarrow> (Some e, w1)
      | (None, w1) \<Rightarrow> sendMessageToEndpoint_response net w1)"

text \<open>\<^verbatim>\<open>_onSend\<close>. \<open>onSend_enter\<close> is the body down to \<^verbatim>\<open>_showTyping\<close>: nothing when the
  trimmed text is empty, else the text sent and the typing handle.
  \<open>onSend_settle\<close> is the \<^verbatim>\<open>catch\<close> and \<^verbatim>\<open>finally\<close> applied to what the awaited call
  gave. \<open>now\<close> is \<^verbatim>\<open>Date.now()\<close>, \<open>net\<close> what \<^verbatim>\<open>fetch\<close> settles to.\<close>

definition onSend_enter :: "nat \<Rightarrow> widget \<Rightarrow> (js_error + string \<times> nat) option \<times> widget" where
  "onSend_enter now w =
     (let txt = trim (textarea_value w)
      in if txt = [] then (None, w)
         else case appendMsg txt ''user'' w of
                (Some e, w1) \<Rightarrow> (Some (Inl e), w1)
              | (None, w1) \<Rightarrow>
                  (case showTyping now (w1\<lparr>textarea_value := []\<rparr>) of
                     (typingId, w2) \<Rightarrow> (Some (Inr (txt, typingId)), w2)))"

definition onSend_settle :: "nat \<Rightarrow> js_error option \<times> widget \<Rightarrow> js_error option \<times> widget" where
  "onSend_settle typingId awaited =
     (case (case awaited of
              (None, w1) \<Rightarrow> (None, w1)
            | (Some err, w1) \<Rightarrow>
                appendMsg apology ''bot'' (w1\<lparr>console_errors := console_errors w1 @ [err]\<rparr>)) of
        (thrown, w2) \<Rightarrow> (thrown, hideTyping typingId w2))"

definition onSend :: "nat \<Rightarrow> fetch_outcome \<Rightarrow> widget \<Rightarrow> js_error option \<times> widget" where
  "onSend now net w =
     (case onSend_enter now w of
        (None, w1) \<Rightarrow> (None, w1)
      | (Some (Inl e), w1) \<Rightarrow> (Some e, w1)
      | (Some (Inr (txt, typingId)), w1) \<Rightarrow>
          onSend_settle typingId (sendMessageToEndpoint txt net w1))"


section \<open>Runs of the widget\<close>

text \<open>Sends one after the other, each run to completion before the next: the user
  types \<open>typed\<close> and triggers the send at time \<open>now\<close>, and \<^verbatim>\<open>fetch\<close> settles to \<open>net\<close>.\<close>

fun sends :: "(string \<times> nat \<times> fetch_outcome) list \<Rightarrow> widget \<Rightarrow> widget" where
  "sends [] w = w"
| "sends ((typed, now, net) # rest) w =
     sends rest (snd (onSend now net (w\<lparr>textarea_value := typed\<rparr>)))"

text \<open>The widget with its suspension point made visible. Between the call of
  \<^verbatim>\<open>fetch\<close> and its settling the send is in flight: the typing handle and the error
  already thrown before \<^verbatim>\<open>fetch\<close>, if any, wait for the continuation. While a send is
  in flight the user can type and open or close the panel. Single-flight is the
  discipline that no send is triggered while one is in flight: a run that breaks
  it, or settles with nothing in flight, is not a run (\<open>None\<close>).\<close>

datatype event =
    Typed string
  | Trigger nat
  | Settled fetch_outcome
  | Opened
  | Closed
  | Toggled

type_synonym session = "widget \<times> (nat \<times> js_error option) option"

fun step :: "event \<Rightarrow> session \<Rightarrow> session option" where
  "step (Typed s) (w, p) = Some (w\<lparr>textarea_value := s\<rparr>, p)"
| "step Opened (w, p) = Some (open_panel w, p)"
| "step Closed (w, p) = Some (close_panel w, p)"
| "step Toggled (w, p) = Some (toggle w, p)"
| "step (Trigger now) (w, None) =
     (case onSend_enter now w of
        (None, w1) \<Rightarrow> Some (w1, None)
      | (Some (Inl e), w1) \<Rightarrow> Some (w1, None)
      | (Some (Inr (txt, typingId)), w1) \<Rightarrow>
          (case sendMessageToEndpoint_request txt w1 of
             (thrown, w2) \<Rightarrow> Some (w2, Some (typingId, thrown))))"
| "step (Trigger now) (w, Some p) = None"
| "step (Settled net) (w, Some (typingId, thrown)) =
     Some (snd (onSend_settle typingId
                  (case thrown of
                     Some e \<Rightarrow> (Some e, w)
                   | None \<Rightarrow> sendMessageToEndpoint_response net w)), None)"
| "step (Settled net) (w, None) = None"

fun run :: "event list \<Rightarrow> session \<Rightarrow> session option" where
  "run [] s = Some s"
| "run (e # es) s = (case step e s of None \<Rightarrow> None | Some s1 \<Rightarrow> run es s1)"

text \<open>The widget with any number of sends in flight, as nothing in the widget
  prevents. A send in flight waits for \<^verbatim>\<open>fetch\<close> (\<open>Fetching\<close>), or its call of
  \<^verbatim>\<open>sendMessageToEndpoint\<close> has returned or thrown and its \<^verbatim>\<open>catch\<close> and \<^verbatim>\<open>finally\<close> are
  still to run (\<open>Returned\<close>); each continuation acts on the widget as it is when it
  runs. \<open>Respond k\<close> and \<open>Resume k\<close> continue the send at position \<open>k\<close> of those in
  flight, and do nothing when there is no such send or it waits for the other.\<close>

datatype pending = Fetching nat | Returned nat "js_error option"

datatype action =
    Input string
  | Submit nat
  | Respond nat fetch_outcome
  | Resume nat
  | PanelOpen
  | PanelClose
  | PanelToggle

fun act :: "action \<Rightarrow> widget \<times> pending list \<Rightarrow> widget \<times> pending list" where
  "act (Input s) (w, ps) = (w\<lparr>textarea_value := s\<rparr>, ps)"
| "act PanelOpen (w, ps) = (open_panel w, ps)"
| "act PanelClose (w, ps) = (close_panel w, ps)"
| "act PanelToggle (w, ps) = (toggle w, ps)"
| "act (Submit now) (w, ps) =
     (case onSend_enter now w of
        (None, w1) \<Rightarrow> (w1, ps)
      | (Some (Inl e), w1) \<Rightarrow> (w1, ps)
      | (Some (Inr (txt, typingId)), w1) \<Rightarrow>
          (case sendMessageToEndpoint_request txt w1 of
             (None, w2) \<Rightarrow> (w2, ps @ [Fetching typingId])
           | (Some e, w2) \<Rightarrow> (w2, ps @ [Returned typingId (Some e)])))"
| "act (Respond k net) (w, ps) =
     (if k < length ps then
        (case ps ! k of
           Fetching typingId \<Rightarrow>
             (case sendMessageToEndpoint_response net w of
                (thrown, w1) \<Rightarrow> (w1, ps[k := Returned typingId thrown]))
         | Returned typingId thrown \<Rightarrow> (w, ps))
      else (w, ps))"
| "act (Resume k) (w, ps) =
     (if k < length ps then
        (case ps ! k of
           Fetching typingId \<Rightarrow> (w, ps)
         | Returned typingId thrown \<Rightarrow>
             (snd (onSend_settle typingId (thrown, w)), take k ps @ drop (Suc k) ps))
      else (w, ps))"

fun interleaved :: "action list \<Rightarrow> widget \<times> pending list \<Rightarrow> widget \<times> pending list" where
  "interleaved [] s = s"
| "interleaved (a # as) s = interleaved as (act a s)"

section \<open>The behaviour in closed form\<close>

text \<open>Whether \<^verbatim>\<open>String\<close> throws for a value, and the text it gives when it does not.\<close>

definition uncoercible :: "json \<Rightarrow> bool" where
  "uncoercible v = (case String_js v of Inl e \<Rightarrow> True | Inr s \<Rightarrow> False)"

definition String_text :: "json \<Rightarrow> string" where
  "String_text v = (case String_js v of Inl e \<Rightarrow> [] | Inr s \<Rightarrow> s)"

text \<open>The reply resolution policy as the specification words it, with the string
  coercion taken as always defined: a string \<^verbatim>\<open>reply\<close>; else the elements of an array
  \<^verbatim>\<open>replies\<close>; else a field \<^verbatim>\<open>text\<close> of any type; else the body as compact JSON.\<close>

definition reply_resolution_policy :: "json \<Rightarrow> string list" where
  "reply_resolution_policy j =
     (case typeof_string (get_prop j ''reply'') of
        Some s \<Rightarrow> [s]
      | None \<Rightarrow>
         (case Array_isArray (get_prop j ''replies'') of
            Some rs \<Rightarrow> map String_text rs
          | None \<Rightarrow>
             (case get_prop j ''text'' of
                Some t \<Rightarrow> [String_text t]
              | None \<Rightarrow> [JSON_stringify j])))"

text \<open>The same policy with the third rule taken only by a truthy \<^verbatim>\<open>text\<close>.\<close>

definition resolved_replies :: "json \<Rightarrow> string list" where
  "resolved_replies j =
     (case typeof_string (get_prop j ''reply'') of
        Some s \<Rightarrow> [s]
      | None \<Rightarrow>
         (case Array_isArray (get_prop j ''replies'') of
            Some rs \<Rightarrow> map String_text rs
          | None \<Rightarrow>
             (case get_prop j ''text'' of
                Some t \<Rightarrow> if ToBoolean t then [String_text t] else [JSON_stringify j]
              | None \<Rightarrow> [JSON_stringify j])))"

text \<open>Whether the rule that applies to a body coerces a value for which \<^verbatim>\<open>String\<close>
  throws: an element of the array \<^verbatim>\<open>replies\<close>, or the truthy \<^verbatim>\<open>text\<close>.\<close>

definition coercion_throws :: "json \<Rightarrow> bool" where
  "coercion_throws j =
     (case typeof_string (get_prop j ''reply'') of
        Some s \<Rightarrow> False
      | None \<Rightarrow>
         (case Array_isArray (get_prop j ''replies'') of
            Some rs \<Rightarrow> list_ex uncoercible rs
          | None \<Rightarrow>
             (case get_prop j ''text'' of
                Some t \<Rightarrow> ToBoolean t \<and> uncoercible t
              | None \<Rightarrow> False)))"

text \<open>What rendering a body appends and what it throws, in every case: the elements
  of \<^verbatim>\<open>replies\<close> are appended up to the first one for which \<^verbatim>\<open>String\<close> throws.\<close>

fun coerce_each :: "json list \<Rightarrow> string list \<times> js_error option" where
  "coerce_each [] = ([], None)"
| "coerce_each (r # rs) =
     (case String_js r of
        Inl e \<Rightarrow> ([], Some e)
      | Inr s \<Rightarrow> (case coerce_each rs of (ts, thrown) \<Rightarrow> (s # ts, thrown)))"

definition rendered :: "json \<Rightarrow> string list \<times> js_error option" where
  "rendered j =
     (case typeof_string (get_prop j ''reply'') of
        Some s \<Rightarrow> ([s], None)
      | None \<Rightarrow>
         (case Array_isArray (get_prop j ''replies'') of
            Some rs \<Rightarrow> coerce_each rs
          | None \<Rightarrow>
             if truthy (get_prop j ''text'')
             then (case String_of (get_prop j ''text'') of
                     Inl e \<Rightarrow> ([], Some e)
                   | Inr s \<Rightarrow> ([s], None))
             else ([JSON_stringify j], None)))"

text \<open>What a whole exchange appends as replies and what \<^verbatim>\<open>sendMessageToEndpoint\<close>
  throws.\<close>

definition exchange :: "string \<Rightarrow> fetch_outcome \<Rightarrow> string list \<times> js_error option" where
  "exchange ep net =
     (if ep = [] then ([], Some EndpointRequired)
      else case net of
             Rejected reason \<Rightarrow> ([], Some (FetchRejected reason))
           | Resolved res \<Rightarrow>
               if \<not> ok res then ([], Some (BadResponse (status res) (res_text res)))
               else (let j = (case res_json res of None \<Rightarrow> JNull | Some v \<Rightarrow> v)
                     in if \<not> ToBoolean j then ([], Some InvalidJSON) else rendered j))"

text \<open>The apology and the console line that follow a thrown error.\<close>

fun fallback :: "js_error option \<Rightarrow> string list" where
  "fallback None = []"
| "fallback (Some e) = [apology]"

fun reported :: "js_error option \<Rightarrow> js_error list" where
  "reported None = []"
| "reported (Some e) = [e]"

text \<open>The notifications an observer, when there is one, receives for the texts
  \<open>ts\<close> appended for \<open>wh\<close>.\<close>

definition notifications :: "widget \<Rightarrow> string \<Rightarrow> string list \<Rightarrow> json list" where
  "notifications w wh ts =
     (case onMessageReceived (opts w) of
        None \<Rightarrow> []
      | Some f \<Rightarrow> map (\<lambda>t. notification wh t (sessionId w)) ts)"

text \<open>The bot entries one send contributes, in every case, and the entries of one
  whole exchange.\<close>

definition bot_entries :: "string \<Rightarrow> fetch_outcome \<Rightarrow> entry list" where
  "bot_entries ep net =
     map (Msg Bot) (fst (exchange ep net) @ fallback (snd (exchange ep net)))"


text \<open>The exchanges that end in an error before anything is rendered: \<^verbatim>\<open>fetch\<close>
  rejected, a status outside 200 to 299, or a body that is unparseable or falsy. A
  send fails when no endpoint is configured or its exchange fails.\<close>

definition exchange_fails :: "fetch_outcome \<Rightarrow> bool" where
  "exchange_fails net =
     (case net of
        Rejected reason \<Rightarrow> True
      | Resolved res \<Rightarrow> \<not> (ok res \<and> truthy (res_json res)))"

definition send_fails :: "string \<Rightarrow> fetch_outcome \<Rightarrow> bool" where
  "send_fails ep net = (ep = [] \<or> exchange_fails net)"





text \<open>The states a send passes through. \<open>entered\<close>: the user entry and the typing
  indicator are shown and the input is cleared. \<open>requested\<close>: \<^verbatim>\<open>fetch\<close> has been called.
  \<open>in_flight\<close>: the state at the suspension point. \<open>appended\<close>: bot texts rendered and
  errors reported.\<close>

definition entered :: "nat \<Rightarrow> widget \<Rightarrow> widget" where
  "entered now w =
     w\<lparr>messages := messages w @ [Msg User (trim (textarea_value w)), Typing now],
       textarea_value := [],
       notified := notified w @ notifications w ''user'' [trim (textarea_value w)]\<rparr>"

definition requested :: "string \<Rightarrow> widget \<Rightarrow> widget" where
  "requested msg w =
     w\<lparr>requests := requests w @
         [\<lparr>url = endpoint (opts w),
           body = payload msg (sessionId w) (location_href w)\<rparr>]\<rparr>"

definition in_flight :: "nat \<Rightarrow> widget \<Rightarrow> widget" where
  "in_flight now w =
     (if endpoint (opts w) = [] then entered now w
      else requested (trim (textarea_value w)) (entered now w))"

definition appended :: "string list \<Rightarrow> js_error list \<Rightarrow> widget \<Rightarrow> widget" where
  "appended ts errs w =
     w\<lparr>messages := messages w @ map (Msg Bot) ts,
       notified := notified w @ notifications w ''bot'' ts,
       console_errors := console_errors w @ errs\<rparr>"

text \<open>The notification that belongs to a transcript entry: one for a message, none
  for a typing indicator.\<close>

fun author_name :: "author \<Rightarrow> string" where
  "author_name User = ''user''"
| "author_name Bot = ''bot''"

fun entry_notes :: "string \<Rightarrow> entry \<Rightarrow> json list" where
  "entry_notes sid (Msg a t) = [notification (author_name a) t sid]"
| "entry_notes sid (Typing t) = []"

text \<open>A widget for the examples: an endpoint, a session id given by the host, and
  an observer that always throws.\<close>

definition example_widget :: widget where
  "example_widget =
     constructor \<lparr>endpoint = ''https://example.test/webhook/chat'',
                  opt_sessionId = Some ''visitor-7'',
                  onMessageReceived = Some (\<lambda>n. Some (HostError ''observer failed''))\<rparr>
       ''k3x9a1b'' ''https://host.test/page''"

text \<open>A run for the examples: a send that the network rejects, the panel opened
  meanwhile, then a second send still in flight.\<close>

definition example_run :: "event list" where
  "example_run =
     [Typed ''  hi there '', Trigger 1000, Opened, Settled (Rejected ''offline''),
      Typed ''again'', Trigger 2000]"

text \<open>Two sends in flight together, the second answered first.\<close>

definition example_overlap :: "action list" where
  "example_overlap =
     [Input ''first'', Submit 1000, Input '' second '', Submit 2000,
      Respond 1 (Resolved \<lparr>status = 200, res_text = None,
                            res_json = Some (JObj [(''reply'', JStr ''two'')])\<rparr>),
      Resume 1, Respond 0 (Rejected ''offline''), Resume 0]"

section \<open>Basic facts\<close>

lemma payload_props [simp]:
  "get_prop (payload msg sid href) ''message'' = Some (JStr msg)"
  "get_prop (payload msg sid href) ''sessionId'' = Some (JStr sid)"
  by (simp_all add: payload_def)

subsection \<open>The values String cannot coerce\<close>

lemma collect_isl: "isl (collect rs) = list_ex isl rs"
  by (induction rs rule: collect.induct) (auto split: sum.splits)

lemma collect_Inl_mem: "collect rs = Inl e \<Longrightarrow> Inl e \<in> set rs"
  by (induction rs rule: collect.induct) (auto split: sum.splits)

lemma String_js_error: "String_js v = Inl e \<Longrightarrow> e = TypeError"
proof (induction v arbitrary: e rule: String_js.induct)
  case (5 xs)
  from "5.prems" have "collect (map (\<lambda>x. if x = JNull then Inr [] else String_js x) xs) = Inl e"
    by (simp split: sum.splits)
  then have "Inl e \<in> set (map (\<lambda>x. if x = JNull then Inr [] else String_js x) xs)"
    by (rule collect_Inl_mem)
  then obtain x where "x \<in> set xs" and "x \<noteq> JNull" and "String_js x = Inl e"
    by (auto split: if_splits)
  then show ?case by (rule "5.IH")
qed (auto split: if_splits)

lemma list_ex_map: "list_ex P (map f xs) = list_ex (\<lambda>x. P (f x)) xs"
  by (induction xs) simp_all

lemma uncoercible_isl: "uncoercible v = isl (String_js v)"
  by (simp add: uncoercible_def split: sum.splits)

lemma uncoercible_simps [simp]:
  "uncoercible JNull = False"
  "uncoercible (JBool b) = False"
  "uncoercible (JNum n) = False"
  "uncoercible (JStr s) = False"
  "uncoercible (JObj kvs) = (map_of kvs ''toString'' \<noteq> None)"
  by (simp_all add: uncoercible_def)

lemma uncoercible_JArr [simp]: "uncoercible (JArr xs) = list_ex uncoercible xs"
proof -
  have "uncoercible (JArr xs) =
      isl (collect (map (\<lambda>x. if x = JNull then Inr [] else String_js x) xs))"
    by (simp add: uncoercible_isl split: sum.splits)
  also have "\<dots> = list_ex (\<lambda>x. isl (if x = JNull then Inr [] else String_js x)) xs"
    by (simp only: collect_isl list_ex_map)
  also have "\<dots> = list_ex uncoercible xs"
    by (induction xs) (simp_all add: uncoercible_isl)
  finally show ?thesis .
qed

lemma String_js_cases:
  "String_js v = (if uncoercible v then Inl TypeError else Inr (String_text v))"
  using String_js_error [of v]
  by (auto simp: uncoercible_def String_text_def split: sum.splits)

lemma coerce_each_all:
  "\<not> list_ex uncoercible rs \<Longrightarrow> coerce_each rs = (map String_text rs, None)"
  by (induction rs) (simp_all add: String_js_cases)

lemma coerce_each_thrown:
  "snd (coerce_each rs) = (if list_ex uncoercible rs then Some TypeError else None)"
  by (induction rs) (auto simp: String_js_cases split: prod.splits)

lemma rendered_thrown:
  "snd (rendered j) = (if coercion_throws j then Some TypeError else None)"
  by (auto simp: rendered_def coercion_throws_def coerce_each_thrown String_js_cases
        split: option.splits)

lemma rendered_resolved:
  "\<not> coercion_throws j \<Longrightarrow> rendered j = (resolved_replies j, None)"
  by (auto simp: rendered_def coercion_throws_def resolved_replies_def coerce_each_all
        String_js_cases split: option.splits)

subsection \<open>Appending\<close>

lemma appendMsg_eq:
  "appendMsg txt wh w =
     (None, w\<lparr>messages := messages w @ [Msg (if wh = ''user'' then User else Bot) txt],
               notified := notified w @ notifications w wh [txt]\<rparr>)"
  by (simp add: appendMsg_def notifications_def Let_def split: option.splits)

lemma appended_Nil [simp]: "appended [] [] w = w"
  by (simp add: appended_def notifications_def split: option.splits)

lemma appended_appended:
  "appended b eb (appended a ea w) = appended (a @ b) (ea @ eb) w"
  by (simp add: appended_def notifications_def split: option.splits)

lemma appendMsg_bot: "appendMsg s ''bot'' w = (None, appended [s] [] w)"
  by (simp add: appendMsg_eq appended_def)

lemma forEach_appendMsg_eq:
  "forEach_appendMsg rs w = (snd (coerce_each rs), appended (fst (coerce_each rs)) [] w)"
proof (induction rs arbitrary: w)
  case Nil
  show ?case by simp
next
  case (Cons r rs)
  show ?case
    by (simp add: appendMsg_bot Cons.IH appended_appended split: sum.splits prod.splits)
qed

lemma render_body_eq:
  "render_body j w = (snd (rendered j), appended (fst (rendered j)) [] w)"
  by (simp add: render_body_def rendered_def appendMsg_bot forEach_appendMsg_eq
        split: option.splits sum.splits)

lemma hideTyping_simps [simp]:
  "messages (hideTyping h w) = filter (\<lambda>n. \<not> is_typing n) (messages w)"
  "notified (hideTyping h w) = notified w"
  "requests (hideTyping h w) = requests w"
  "console_errors (hideTyping h w) = console_errors w"
  "sessionId (hideTyping h w) = sessionId w"
  "opts (hideTyping h w) = opts w"
  "textarea_value (hideTyping h w) = textarea_value w"
  "location_href (hideTyping h w) = location_href w"
  "isOpen (hideTyping h w) = isOpen w"
  by (simp_all add: hideTyping_def)

lemma entered_simps [simp]:
  "messages (entered now w) = messages w @ [Msg User (trim (textarea_value w)), Typing now]"
  "textarea_value (entered now w) = []"
  "notified (entered now w) = notified w @ notifications w ''user'' [trim (textarea_value w)]"
  "requests (entered now w) = requests w"
  "console_errors (entered now w) = console_errors w"
  "sessionId (entered now w) = sessionId w"
  "opts (entered now w) = opts w"
  "location_href (entered now w) = location_href w"
  "isOpen (entered now w) = isOpen w"
  by (simp_all add: entered_def)

lemma requested_simps [simp]:
  "messages (requested msg w) = messages w"
  "textarea_value (requested msg w) = textarea_value w"
  "notified (requested msg w) = notified w"
  "requests (requested msg w) = requests w @
     [\<lparr>url = endpoint (opts w),
       body = payload msg (sessionId w) (location_href w)\<rparr>]"
  "console_errors (requested msg w) = console_errors w"
  "sessionId (requested msg w) = sessionId w"
  "opts (requested msg w) = opts w"
  "location_href (requested msg w) = location_href w"
  "isOpen (requested msg w) = isOpen w"
  by (simp_all add: requested_def)

lemma appended_simps [simp]:
  "messages (appended ts errs w) = messages w @ map (Msg Bot) ts"
  "notified (appended ts errs w) = notified w @ notifications w ''bot'' ts"
  "console_errors (appended ts errs w) = console_errors w @ errs"
  "textarea_value (appended ts errs w) = textarea_value w"
  "requests (appended ts errs w) = requests w"
  "sessionId (appended ts errs w) = sessionId w"
  "opts (appended ts errs w) = opts w"
  "location_href (appended ts errs w) = location_href w"
  "isOpen (appended ts errs w) = isOpen w"
  by (simp_all add: appended_def)

lemma notifications_frame [simp]:
  "notifications (entered now w) = notifications w"
  "notifications (requested msg w) = notifications w"
  "notifications (hideTyping h w) = notifications w"
  "notifications (appended ts errs w) = notifications w"
  "notifications (w\<lparr>textarea_value := s\<rparr>) = notifications w"
  by (simp_all add: notifications_def fun_eq_iff split: option.splits)

lemma in_flight_simps [simp]:
  "messages (in_flight now w) = messages w @ [Msg User (trim (textarea_value w)), Typing now]"
  "textarea_value (in_flight now w) = []"
  "notified (in_flight now w) = notified w @ notifications w ''user'' [trim (textarea_value w)]"
  "requests (in_flight now w) = requests w @
     (if endpoint (opts w) = [] then []
      else [\<lparr>url = endpoint (opts w),
             body = payload (trim (textarea_value w)) (sessionId w) (location_href w)\<rparr>])"
  "console_errors (in_flight now w) = console_errors w"
  "sessionId (in_flight now w) = sessionId w"
  "opts (in_flight now w) = opts w"
  "location_href (in_flight now w) = location_href w"
  "isOpen (in_flight now w) = isOpen w"
  "notifications (in_flight now w) = notifications w"
  by (simp_all add: in_flight_def)

subsection \<open>Counting typing indicators\<close>

lemma typing_count_simps [simp]:
  "typing_count [] = 0"
  "typing_count (es @ fs) = typing_count es + typing_count fs"
  "typing_count (Typing t # es) = Suc (typing_count es)"
  "typing_count (Msg a s # es) = typing_count es"
  "typing_count (map (Msg a) ts) = 0"
  "typing_count (filter (\<lambda>n. \<not> is_typing n) es) = 0"
  by (simp_all add: typing_count_def)


lemma filter_Msg [simp]:
  "filter (\<lambda>n. \<not> is_typing n) (map (Msg a) ts) = map (Msg a) ts"
  by (induction ts) simp_all

lemma bot_entries_no_typing [simp]:
  "filter (\<lambda>n. \<not> is_typing n) (bot_entries ep net) = bot_entries ep net"
  "typing_count (bot_entries ep net) = 0"
  by (simp_all add: bot_entries_def del: map_append)

subsection \<open>The transport\<close>

lemma request_no_endpoint:
  "endpoint (opts w) = [] \<Longrightarrow>
     sendMessageToEndpoint_request msg w = (Some EndpointRequired, w)"
  by (simp add: sendMessageToEndpoint_request_def)

lemma request_endpoint:
  "endpoint (opts w) \<noteq> [] \<Longrightarrow>
     sendMessageToEndpoint_request msg w = (None, requested msg w)"
  by (simp add: sendMessageToEndpoint_request_def requested_def)

lemma response_eq:
  "ep \<noteq> [] \<Longrightarrow>
     sendMessageToEndpoint_response net w =
       (snd (exchange ep net), appended (fst (exchange ep net)) [] w)"
  by (simp add: sendMessageToEndpoint_response_def exchange_def render_body_eq Let_def
        split: fetch_outcome.splits)

lemma exchange_fails_eq:
  "send_fails ep net \<Longrightarrow> fst (exchange ep net) = [] \<and> (\<exists>e. snd (exchange ep net) = Some e)"
  by (auto simp: send_fails_def exchange_fails_def exchange_def Let_def
        split: fetch_outcome.splits option.splits)


lemma sendMessageToEndpoint_eq:
  "sendMessageToEndpoint msg net w =
     (snd (exchange (endpoint (opts w)) net),
      appended (fst (exchange (endpoint (opts w)) net)) []
        (if endpoint (opts w) = [] then w else requested msg w))"
proof (cases "endpoint (opts w) = []")
  case True
  then show ?thesis
    by (simp add: sendMessageToEndpoint_def request_no_endpoint exchange_def)
next
  case False
  then show ?thesis
    by (simp add: sendMessageToEndpoint_def request_endpoint
          response_eq [of "endpoint (opts w)"])
qed

lemma sendMessageToEndpoint_throws:
  assumes "send_fails (endpoint (opts w)) net"
  shows "\<exists>e. fst (sendMessageToEndpoint msg net w) = Some e"
    and "messages (snd (sendMessageToEndpoint msg net w)) = messages w"
    and "notified (snd (sendMessageToEndpoint msg net w)) = notified w"
  using exchange_fails_eq [OF assms]
  by (auto simp: sendMessageToEndpoint_eq notifications_def split: option.splits)

subsection \<open>One send\<close>

lemma onSend_settle_eq:
  "onSend_settle tid (thrown, w) =
     (None, hideTyping tid (appended (fallback thrown) (reported thrown) w))"
  by (cases thrown)
     (simp_all add: onSend_settle_def appendMsg_eq appended_def notifications_def
        split: option.splits)

lemma onSend_enter_blank:
  "trim (textarea_value w) = [] \<Longrightarrow> onSend_enter now w = (None, w)"
  by (simp add: onSend_enter_def)

lemma onSend_enter_text:
  "trim (textarea_value w) \<noteq> [] \<Longrightarrow>
     onSend_enter now w = (Some (Inr (trim (textarea_value w), now)), entered now w)"
  by (simp add: onSend_enter_def entered_def appendMsg_eq showTyping_def notifications_def
        Let_def split: option.splits)

lemma send_in_flight:
  "trim (textarea_value w) \<noteq> [] \<Longrightarrow>
     sendMessageToEndpoint_request (trim (textarea_value w)) (entered now w) =
       (if endpoint (opts w) = [] then Some EndpointRequired else None, in_flight now w)"
  by (simp add: request_no_endpoint request_endpoint in_flight_def)

lemma onSend_blank:
  "trim (textarea_value w) = [] \<Longrightarrow> onSend now net w = (None, w)"
  by (simp add: onSend_def onSend_enter_blank)

lemma onSend_eq:
  assumes "trim (textarea_value w) \<noteq> []"
  shows "onSend now net w =
     (None, hideTyping now
        (appended (fst (exchange (endpoint (opts w)) net) @
                   fallback (snd (exchange (endpoint (opts w)) net)))
           (reported (snd (exchange (endpoint (opts w)) net)))
           (in_flight now w)))"
  using assms
  by (simp add: onSend_def onSend_enter_text sendMessageToEndpoint_eq onSend_settle_eq
        appended_appended in_flight_def)

lemma onSend_thrown: "fst (onSend now net w) = None"
  by (cases "trim (textarea_value w) = []") (simp_all add: onSend_blank onSend_eq)

lemma onSend_frame [simp]:
  "opts (snd (onSend now net w)) = opts w"
  "sessionId (snd (onSend now net w)) = sessionId w"
  "location_href (snd (onSend now net w)) = location_href w"
  "isOpen (snd (onSend now net w)) = isOpen w"
  by (cases "trim (textarea_value w) = []"; simp add: onSend_blank onSend_eq)+

lemma onSend_messages:
  "messages (snd (onSend now net w)) =
     (if trim (textarea_value w) = [] then messages w
      else filter (\<lambda>n. \<not> is_typing n) (messages w) @
           Msg User (trim (textarea_value w)) # bot_entries (endpoint (opts w)) net)"
  by (cases "trim (textarea_value w) = []")
     (simp_all add: onSend_blank onSend_eq bot_entries_def del: map_append)

lemma onSend_requests:
  "requests (snd (onSend now net w)) = requests w @
     (if trim (textarea_value w) = [] \<or> endpoint (opts w) = [] then []
      else [\<lparr>url = endpoint (opts w),
             body = payload (trim (textarea_value w)) (sessionId w) (location_href w)\<rparr>])"
  by (cases "trim (textarea_value w) = []") (simp_all add: onSend_blank onSend_eq)

lemma onSend_textarea:
  "textarea_value (snd (onSend now net w)) =
     (if trim (textarea_value w) = [] then textarea_value w else [])"
  by (cases "trim (textarea_value w) = []") (simp_all add: onSend_blank onSend_eq)

lemma onSend_console:
  "console_errors (snd (onSend now net w)) = console_errors w @
     (if trim (textarea_value w) = [] then []
      else reported (snd (exchange (endpoint (opts w)) net)))"
  by (cases "trim (textarea_value w) = []") (simp_all add: onSend_blank onSend_eq)

subsection \<open>Sends in sequence\<close>

lemma sends_opts [simp]: "opts (sends xs w) = opts w"
  by (induction xs w rule: sends.induct) simp_all


subsection \<open>Runs\<close>

lemma step_Trigger_idle:
  "step (Trigger now) (w, None) =
     Some (if trim (textarea_value w) = [] then (w, None)
           else (in_flight now w,
                 Some (now, if endpoint (opts w) = [] then Some EndpointRequired else None)))"
  by (simp add: onSend_enter_blank onSend_enter_text send_in_flight)

lemma step_Settled_in_flight:
  "\<exists>ts errs. step (Settled net) (w, Some (tid, thrown)) =
     Some (hideTyping tid (appended ts errs w), None)"
proof (cases thrown)
  case (Some e)
  then show ?thesis by (auto simp: onSend_settle_eq)
next
  case None
  obtain thrown' ts where "sendMessageToEndpoint_response net w = (thrown', appended ts [] w)"
    using response_eq [of "''e''" net w] by auto
  with None show ?thesis
    by (auto simp: onSend_settle_eq appended_appended)
qed

lemma step_cases [consumes 1, case_names typed panel blank sent settled]:
  assumes "step e (w, p) = Some (w', p')"
  obtains s where "e = Typed s" and "w' = w\<lparr>textarea_value := s\<rparr>" and "p' = p"
  | b where "w' = w\<lparr>isOpen := b\<rparr>" and "p' = p"
  | now where "e = Trigger now" and "p = None" and "trim (textarea_value w) = []"
      and "w' = w" and "p' = None"
  | now thrown where "e = Trigger now" and "p = None" and "trim (textarea_value w) \<noteq> []"
      and "w' = in_flight now w" and "p' = Some (now, thrown)"
  | net tid thrown ts errs where "e = Settled net" and "p = Some (tid, thrown)"
      and "w' = hideTyping tid (appended ts errs w)" and "p' = None"
proof (cases e)
  case (Typed s)
  with assms show ?thesis using that(1) by auto
next
  case Opened
  with assms show ?thesis using that(2) [of True] by (auto simp: open_panel_def)
next
  case Closed
  with assms show ?thesis using that(2) [of False] by (auto simp: close_panel_def)
next
  case Toggled
  with assms show ?thesis
    using that(2) [of True] that(2) [of False]
    by (auto simp: toggle_def open_panel_def close_panel_def split: if_splits)
next
  case (Trigger now)
  show ?thesis
  proof (cases p)
    case None
    with assms Trigger show ?thesis
      using step_Trigger_idle [of now w] that(3) [of now] that(4) [of now]
      by (auto simp del: step.simps split: if_splits)
  next
    case (Some q)
    with assms Trigger show ?thesis by simp
  qed
next
  case (Settled net)
  show ?thesis
  proof (cases p)
    case None
    with assms Settled show ?thesis by simp
  next
    case (Some q)
    obtain tid thrown where q: "q = (tid, thrown)" by (cases q)
    obtain ts errs where "step (Settled net) (w, Some (tid, thrown)) =
        Some (hideTyping tid (appended ts errs w), None)"
      using step_Settled_in_flight by blast
    with assms Settled Some q show ?thesis
      using that(5) [of net tid thrown ts errs] by simp
  qed
qed

lemma run_invariant:
  assumes "run evs s0 = Some s" and "P s0"
    and "\<And>e s s'. P s \<Longrightarrow> step e s = Some s' \<Longrightarrow> P s'"
  shows "P s"
  using assms(1,2)
proof (induction evs arbitrary: s0)
  case Nil
  then show ?case by simp
next
  case (Cons e es)
  then obtain s1 where s1: "step e s0 = Some s1" "run es s1 = Some s"
    by (auto split: option.splits)
  with Cons.prems(2) have "P s1" using assms(3) by blast
  with s1 show ?case using Cons.IH by blast
qed

lemma run_typing_count:
  assumes "run evs (w0, None) = Some (w, p)" and "typing_count (messages w0) = 0"
  shows "typing_count (messages w) = (if p = None then 0 else 1)"
proof -
  let ?P = "\<lambda>s. typing_count (messages (fst s)) = (if snd s = None then 0 else 1)"
  have "?P (w, p)"
  proof (rule run_invariant [OF assms(1), where P = ?P])
    show "?P (w0, None)" using assms(2) by simp
  next
    fix e s s'
    assume inv: "?P s" and st: "step e s = Some s'"
    obtain v q v' q' where s: "s = (v, q)" "s' = (v', q')"
      by (cases s, cases s') auto
    from st [unfolded s] inv s show "?P s'"
      by (cases rule: step_cases) auto
  qed
  then show ?thesis by simp
qed

lemma run_session:
  assumes "run evs (w0, p0) = Some (w, p)"
    and "list_all (\<lambda>r. get_prop (body r) ''sessionId'' = Some (JStr (sessionId w0))) (requests w0)"
  shows "sessionId w = sessionId w0 \<and> opts w = opts w0 \<and>
         list_all (\<lambda>r. get_prop (body r) ''sessionId'' = Some (JStr (sessionId w0))) (requests w)"
proof -
  let ?P = "\<lambda>s. sessionId (fst s) = sessionId w0 \<and> opts (fst s) = opts w0 \<and>
         list_all (\<lambda>r. get_prop (body r) ''sessionId'' = Some (JStr (sessionId w0))) (requests (fst s))"
  have "?P (w, p)"
  proof (rule run_invariant [OF assms(1), where P = ?P])
    show "?P (w0, p0)" using assms(2) by simp
  next
    fix e s s'
    assume inv: "?P s" and st: "step e s = Some s'"
    obtain v q v' q' where s: "s = (v, q)" "s' = (v', q')"
      by (cases s, cases s') auto
    from st [unfolded s] inv s show "?P s'"
      by (cases rule: step_cases) auto
  qed
  then show ?thesis by simp
qed

lemma concat_notes_filter:
  "concat (map (entry_notes sid) (filter (\<lambda>n. \<not> is_typing n) es)) =
     concat (map (entry_notes sid) es)"
proof (induction es)
  case Nil
  show ?case by simp
next
  case (Cons e es)
  then show ?case by (cases e) simp_all
qed

lemma run_notified:
  assumes "run evs (w0, p0) = Some (w, p)"
    and "onMessageReceived (opts w0) = Some f"
    and "notified w0 = concat (map (entry_notes (sessionId w0)) (messages w0))"
  shows "notified w = concat (map (entry_notes (sessionId w)) (messages w))"
proof -
  let ?P = "\<lambda>s. sessionId (fst s) = sessionId w0 \<and> opts (fst s) = opts w0 \<and>
         notified (fst s) = concat (map (entry_notes (sessionId w0)) (messages (fst s)))"
  have "?P (w, p)"
  proof (rule run_invariant [OF assms(1), where P = ?P])
    show "?P (w0, p0)" using assms(3) by simp
  next
    fix e s s'
    assume inv: "?P s" and st: "step e s = Some s'"
    obtain v q v' q' where s: "s = (v, q)" "s' = (v', q')"
      by (cases s, cases s') auto
    from st [unfolded s] inv s assms(2) show "?P s'"
      by (cases rule: step_cases)
         (auto simp: notifications_def concat_notes_filter comp_def)
  qed
  then show ?thesis by simp
qed

subsection \<open>Sends in flight together\<close>

lemma act_widget [case_names same typed panel sent rendered resumed]:
  obtains "fst (act a (w, ps)) = w"
  | s where "fst (act a (w, ps)) = w\<lparr>textarea_value := s\<rparr>"
  | b where "fst (act a (w, ps)) = w\<lparr>isOpen := b\<rparr>"
  | now where "trim (textarea_value w) \<noteq> []" and "fst (act a (w, ps)) = in_flight now w"
  | ts where "fst (act a (w, ps)) = appended ts [] w"
  | tid ts errs where "fst (act a (w, ps)) = hideTyping tid (appended ts errs w)"
proof (cases a)
  case (Input s)
  then show ?thesis using that(2) by simp
next
  case (Submit now)
  show ?thesis
  proof (cases "trim (textarea_value w) = []")
    case True
    with Submit show ?thesis using that(1) by (simp add: onSend_enter_blank)
  next
    case False
    with Submit show ?thesis
      using that(4) [of now] by (simp add: onSend_enter_text send_in_flight)
  qed
next
  case (Respond k net)
  obtain thrown ts where "sendMessageToEndpoint_response net w = (thrown, appended ts [] w)"
    using response_eq [of "''e''" net w] by auto
  with Respond show ?thesis
    using that(1) that(5) [of ts]
    by (cases "k < length ps"; cases "ps ! k") simp_all
next
  case (Resume k)
  then show ?thesis
    using that(1) that(6)
    by (cases "k < length ps"; cases "ps ! k") (simp_all add: onSend_settle_eq)
next
  case PanelOpen
  then show ?thesis using that(3) [of True] by (simp add: open_panel_def)
next
  case PanelClose
  then show ?thesis using that(3) [of False] by (simp add: close_panel_def)
next
  case PanelToggle
  then show ?thesis
    using that(3) [of True] that(3) [of False]
    by (cases "isOpen w") (simp_all add: toggle_def open_panel_def close_panel_def)
qed

lemma interleaved_invariant:
  assumes "P s0" and "\<And>a s. P s \<Longrightarrow> P (act a s)"
  shows "P (interleaved acts s0)"
  using assms(1)
proof (induction acts arbitrary: s0)
  case Nil
  then show ?case by simp
next
  case (Cons a acts)
  from Cons.prems have "P (act a s0)" by (rule assms(2))
  then show ?case using Cons.IH by simp
qed

lemma interleaved_session:
  assumes "list_all (\<lambda>r. get_prop (body r) ''sessionId'' = Some (JStr (sessionId w0))) (requests w0)"
  shows "sessionId (fst (interleaved acts (w0, ps0))) = sessionId w0 \<and>
         list_all (\<lambda>r. get_prop (body r) ''sessionId'' = Some (JStr (sessionId w0)))
           (requests (fst (interleaved acts (w0, ps0))))"
proof -
  let ?P = "\<lambda>s. sessionId (fst s) = sessionId w0 \<and>
         list_all (\<lambda>r. get_prop (body r) ''sessionId'' = Some (JStr (sessionId w0)))
           (requests (fst s))"
  show ?thesis
  proof (rule interleaved_invariant [where P = ?P])
    show "?P (w0, ps0)" using assms by simp
  next
    fix a and s :: "widget \<times> pending list"
    assume inv: "?P s"
    obtain v qs where s: "s = (v, qs)" by (cases s)
    show "?P (act a s)"
      unfolding s using inv [unfolded s]
      by (cases rule: act_widget [of a v qs]) auto
  qed
qed

subsection \<open>Trimming\<close>

lemma trim_blank_iff: "trim s = [] \<longleftrightarrow> list_all is_space s"
proof
  assume "trim s = []"
  then have "dropWhile is_space (rev (dropWhile is_space s)) = []"
    by (simp add: trim_def)
  then have "\<forall>c\<in>set (dropWhile is_space s). is_space c"
    by (simp add: dropWhile_eq_Nil_conv)
  then have "dropWhile is_space s = []"
    by (metis hd_dropWhile hd_in_set)
  then show "list_all is_space s"
    by (simp add: dropWhile_eq_Nil_conv list_all_iff)
next
  assume "list_all is_space s"
  then show "trim s = []"
    by (auto simp: trim_def list_all_iff dest: set_dropWhileD)
qed


subsection \<open>What the observer has seen\<close>

lemma run_unobserved:
  assumes "run evs (w0, p0) = Some (w, p)"
    and "onMessageReceived (opts w0) = None" and "notified w0 = []"
  shows "notified w = []"
proof -
  let ?P = "\<lambda>s. opts (fst s) = opts w0 \<and> notified (fst s) = []"
  have "?P (w, p)"
  proof (rule run_invariant [OF assms(1), where P = ?P])
    show "?P (w0, p0)" using assms(3) by simp
  next
    fix e s s'
    assume inv: "?P s" and st: "step e s = Some s'"
    obtain v q v' q' where s: "s = (v, q)" "s' = (v', q')"
      by (cases s, cases s') auto
    from st [unfolded s] inv s assms(2) show "?P s'"
      by (cases rule: step_cases) (auto simp: notifications_def)
  qed
  then show ?thesis by simp
qed

lemma length_entry_notes:
  "length (concat (map (entry_notes sid) es)) = length (filter (\<lambda>n. \<not> is_typing n) es)"
proof (induction es)
  case Nil
  show ?case by simp
next
  case (Cons e es)
  then show ?case by (cases e) simp_all
qed

subsection \<open>The two views of a send agree\<close>

lemma trigger_then_settle:
  assumes "trim (textarea_value w) \<noteq> []"
  shows "run [Trigger now, Settled net] (w, None) = Some (snd (onSend now net w), None)"
proof (cases "endpoint (opts w) = []")
  case True
  with assms show ?thesis
    by (simp add: onSend_def onSend_enter_text sendMessageToEndpoint_def send_in_flight)
next
  case False
  with assms show ?thesis
    by (simp add: onSend_def onSend_enter_text sendMessageToEndpoint_def send_in_flight)
qed

subsection \<open>The resolution of some bodies\<close>

lemma resolved_replies_examples:
  "resolved_replies (JObj [(''reply'', JStr ''A''), (''replies'', JArr [JStr ''B'']),
                          (''text'', JStr ''C'')]) = [''A'']"
  "resolved_replies (JObj [(''replies'', JArr [JStr ''x'', JStr ''y''])]) = [''x'', ''y'']"
  "resolved_replies (JObj [(''replies'', JArr [])]) = []"
  "resolved_replies (JObj [(''text'', JNum ''42'')]) = [''42'']"
  "resolved_replies (JObj [(''foo'', JStr ''bar'')]) =
     [''{'' @ [CHR 0x22] @ ''foo'' @ [CHR 0x22] @ '':'' @ [CHR 0x22] @ ''bar'' @ [CHR 0x22] @ ''}'']"
  "resolved_replies (JArr [JNum ''1'', JNull]) = [''[1,null]'']"
  by (simp_all add: resolved_replies_def String_text_def quote_js_def quote_char_def)

lemma rendered_examples:
  "rendered (JObj [(''replies'', JArr [JStr ''a'', JObj [(''toString'', JNum ''1'')], JStr ''b''])]) =
     ([''a''], Some TypeError)"
  "rendered (JObj [(''text'', JObj [(''toString'', JStr ''x'')])]) = ([], Some TypeError)"
  "rendered (JObj [(''text'', JArr [JNum ''1'', JNull, JArr [JStr ''a'', JBool True], JObj []])]) =
     ([''1,,a,true,[object Object]''], None)"
  "rendered (JObj [(''text'', JArr [JNum ''1'', JArr [JObj [(''toString'', JNull)]]])]) =
     ([], Some TypeError)"
  by (simp_all add: rendered_def)

subsection \<open>Replies or else the apology\<close>


section \<open>The claims\<close>

text \<open>
  C1, as amended. For every parsed success response body that is truthy (not
  \<^verbatim>\<open>null\<close>, \<^verbatim>\<open>false\<close>, \<^verbatim>\<open>0\<close> or the empty string) and for which no string coercion
  made by the rule that applies throws (\<^verbatim>\<open>String\<close> throws for an object with an own
  property named \<^verbatim>\<open>toString\<close> and for an array that holds one), exactly one
  resolution rule applies, chosen by fixed precedence: a string field \<^verbatim>\<open>reply\<close> is
  appended alone; else the elements of an array field \<^verbatim>\<open>replies\<close> are appended, each
  coerced to a string, in array order (none for an empty array, without error);
  else a truthy field \<^verbatim>\<open>text\<close> is appended coerced to a string; else the whole body
  is appended as compact JSON. All of them are bot entries, and the send does not
  throw.
\<close>

theorem reply_resolution_precedence:
  assumes "endpoint (opts w) \<noteq> []" and "ok res" and "res_json res = Some j" and "ToBoolean j"
    and "\<not> coercion_throws j"
  shows "fst (sendMessageToEndpoint msg (Resolved res) w) = None \<and>
         messages (snd (sendMessageToEndpoint msg (Resolved res) w)) =
           messages w @ map (Msg Bot) (resolved_replies j)"
proof -
  have "exchange (endpoint (opts w)) (Resolved res) = rendered j"
    using assms(1-4) by (simp add: exchange_def)
  also have "\<dots> = (resolved_replies j, None)"
    using assms(5) by (rule rendered_resolved)
  finally show ?thesis
    using assms(1) by (simp add: sendMessageToEndpoint_eq)
qed

theorem reply_resolution_precedence_witness:
  "endpoint (opts example_widget) \<noteq> [] \<and>
   ok \<lparr>status = 200, res_text = None,
       res_json = Some (JObj [(''reply'', JStr ''A''), (''replies'', JArr [JStr ''B'']),
                              (''text'', JStr ''C'')])\<rparr> \<and>
   ToBoolean (JObj [(''reply'', JStr ''A''), (''replies'', JArr [JStr ''B'']),
                    (''text'', JStr ''C'')]) \<and>
   \<not> coercion_throws (JObj [(''reply'', JStr ''A''), (''replies'', JArr [JStr ''B'']),
                    (''text'', JStr ''C'')]) \<and>
   messages (snd (sendMessageToEndpoint ''hello''
      (Resolved \<lparr>status = 200, res_text = None,
         res_json = Some (JObj [(''reply'', JStr ''A''), (''replies'', JArr [JStr ''B'']),
                                (''text'', JStr ''C'')])\<rparr>) example_widget)) = [Msg Bot ''A'']"
  using reply_resolution_precedence
    [of example_widget
        "\<lparr>status = 200, res_text = None,
          res_json = Some (JObj [(''reply'', JStr ''A''), (''replies'', JArr [JStr ''B'']),
                                 (''text'', JStr ''C'')])\<rparr>"
        "JObj [(''reply'', JStr ''A''), (''replies'', JArr [JStr ''B'']), (''text'', JStr ''C'')]"
        "''hello''"]
  by (simp add: example_widget_def constructor_def ok_def resolved_replies_def
        coercion_throws_def)

text \<open>
  The body \<^verbatim>\<open>{"text":0}\<close> has a field \<^verbatim>\<open>text\<close>, whose string coercion is \<^verbatim>\<open>0\<close>; the
  widget shows the serialized body instead. And of the three elements of
  \<^verbatim>\<open>{"replies":["a",{"toString":1},"b"]}\<close> only the first is appended: the coercion
  of the second throws.
\<close>

theorem reply_resolution_text_counterexample:
  "messages (snd (sendMessageToEndpoint ''hello''
      (Resolved \<lparr>status = 200, res_text = None,
         res_json = Some (JObj [(''text'', JNum ''0'')])\<rparr>) example_widget))
     = [Msg Bot (''{'' @ [CHR 0x22] @ ''text'' @ [CHR 0x22] @ '':0}'')] \<and>
   reply_resolution_policy (JObj [(''text'', JNum ''0'')]) = [''0''] \<and>
   messages (snd (sendMessageToEndpoint ''hello''
      (Resolved \<lparr>status = 200, res_text = None,
         res_json = Some (JObj [(''text'', JNum ''0'')])\<rparr>) example_widget))
     \<noteq> messages example_widget @
         map (Msg Bot) (reply_resolution_policy (JObj [(''text'', JNum ''0'')])) \<and>
   sendMessageToEndpoint ''hello''
      (Resolved \<lparr>status = 200, res_text = None,
         res_json = Some (JObj [(''replies'',
           JArr [JStr ''a'', JObj [(''toString'', JNum ''1'')], JStr ''b''])])\<rparr>)
      (constructor \<lparr>endpoint = ''https://example.test/webhook/chat'', opt_sessionId = None,
                     onMessageReceived = None\<rparr> ''k3x9a1b'' ''https://host.test/page'')
     = (Some TypeError,
        \<lparr>opts = \<lparr>endpoint = ''https://example.test/webhook/chat'', opt_sessionId = None,
                  onMessageReceived = None\<rparr>,
         sessionId = ''sess_k3x9a1b'', isOpen = False,
         messages = [Msg Bot ''a''], textarea_value = [], notified = [],
         requests = [\<lparr>url = ''https://example.test/webhook/chat'',
                      body = payload ''hello'' ''sess_k3x9a1b'' ''https://host.test/page''\<rparr>],
         console_errors = [], location_href = ''https://host.test/page''\<rparr>)"
  by (simp add: sendMessageToEndpoint_def sendMessageToEndpoint_request_def
        sendMessageToEndpoint_response_def render_body_def appendMsg_def Let_def
        reply_resolution_policy_def String_text_def example_widget_def constructor_def ok_def
        quote_js_def quote_char_def)

text \<open>
  C2. A send whose exchange ends in an error (no endpoint configured, \<^verbatim>\<open>fetch\<close>
  rejected, a status outside 200 to 299, or a body that does not parse) appends,
  after the user entry, exactly the one fixed apology as a bot entry and nothing
  else; the error \<^verbatim>\<open>sendMessageToEndpoint\<close> throws is caught in \<^verbatim>\<open>_onSend\<close>, which
  returns normally; no typing indicator is left; the error is reported once to
  the console.
\<close>

theorem send_failure_fallback:
  assumes "trim (textarea_value w) \<noteq> []"
    and "endpoint (opts w) = [] \<or> net = Rejected reason \<or>
         (net = Resolved res \<and> \<not> ok res) \<or> (net = Resolved res \<and> res_json res = None)"
  shows "fst (onSend now net w) = None \<and>
         messages (snd (onSend now net w)) =
           filter (\<lambda>n. \<not> is_typing n) (messages w) @
           [Msg User (trim (textarea_value w)), Msg Bot apology] \<and>
         typing_count (messages (snd (onSend now net w))) = 0 \<and>
         length (console_errors (snd (onSend now net w))) = Suc (length (console_errors w))"
proof -
  from assms(2) have "send_fails (endpoint (opts w)) net"
    by (auto simp: send_fails_def exchange_fails_def)
  then obtain e where "fst (exchange (endpoint (opts w)) net) = []"
    and "snd (exchange (endpoint (opts w)) net) = Some e"
    using exchange_fails_eq by blast
  with assms(1) show ?thesis by (simp add: onSend_eq)
qed

theorem send_failure_fallback_witness:
  "trim (textarea_value (example_widget\<lparr>textarea_value := ''  help me ''\<rparr>)) \<noteq> [] \<and>
   \<not> ok \<lparr>status = 500, res_text = Some ''Internal Server Error'', res_json = None\<rparr> \<and>
   fst (onSend 1000
          (Resolved \<lparr>status = 500, res_text = Some ''Internal Server Error'', res_json = None\<rparr>)
          (example_widget\<lparr>textarea_value := ''  help me ''\<rparr>)) = None \<and>
   messages (snd (onSend 1000
          (Resolved \<lparr>status = 500, res_text = Some ''Internal Server Error'', res_json = None\<rparr>)
          (example_widget\<lparr>textarea_value := ''  help me ''\<rparr>))) =
     [Msg User ''help me'', Msg Bot ''Sorry, something went wrong. Please try again later.'']"
  using send_failure_fallback
    [of "example_widget\<lparr>textarea_value := ''  help me ''\<rparr>"
        "Resolved \<lparr>status = 500, res_text = Some ''Internal Server Error'', res_json = None\<rparr>"
        "[]"
        "\<lparr>status = 500, res_text = Some ''Internal Server Error'', res_json = None\<rparr>"
        1000]
  by (simp add: example_widget_def constructor_def ok_def trim_def is_space_def apology_def)




text \<open>
  C4. In every run that keeps to single-flight (no send triggered while one is in
  flight), at each point the transcript holds one typing indicator while a send is
  in flight and none otherwise; in particular none once a send has settled, with
  a reply or with an error. \<^verbatim>\<open>_hideTyping\<close> removes every typing entry and nothing
  else, whatever handle it is given.
\<close>

theorem typing_indicator_single_flight:
  assumes "run evs (constructor os rnd href, None) = Some (w, p)"
  shows "typing_count (messages w) = (if p = None then 0 else 1) \<and>
         typing_count (messages (snd (onSend now net (v\<lparr>textarea_value := s\<rparr>)))) =
           (if trim s = [] then typing_count (messages v) else 0) \<and>
         messages (hideTyping h v) = filter (\<lambda>n. \<not> is_typing n) (messages v) \<and>
         typing_count (messages (hideTyping h v)) = 0"
proof -
  have "typing_count (messages (constructor os rnd href)) = 0"
    by (simp add: constructor_def)
  with assms have "typing_count (messages w) = (if p = None then 0 else 1)"
    by (rule run_typing_count)
  then show ?thesis by (simp add: onSend_messages)
qed

theorem typing_indicator_single_flight_witness:
  "run example_run (example_widget, None) =
     Some (fst (the (run example_run (example_widget, None))), Some (2000, None)) \<and>
   typing_count (messages (fst (the (run example_run (example_widget, None))))) = 1 \<and>
   typing_count (messages (hideTyping 7 (fst (the (run example_run (example_widget, None)))))) = 0"
proof -
  have r: "run example_run (constructor (opts example_widget) ''k3x9a1b'' ''https://host.test/page'', None) =
     Some (fst (the (run example_run (example_widget, None))), Some (2000, None))"
    by (simp add: example_run_def example_widget_def constructor_def onSend_enter_def
          appendMsg_def showTyping_def hideTyping_def sendMessageToEndpoint_request_def
          sendMessageToEndpoint_response_def onSend_settle_def open_panel_def trim_def
          is_space_def Let_def)
  show ?thesis
    using r typing_indicator_single_flight
      [OF r, where h = 7 and v = "fst (the (run example_run (example_widget, None)))"]
    by (simp add: example_widget_def constructor_def)
qed

text \<open>
  C5. When the input is empty or only white space, so that trimming leaves nothing,
  a send trigger changes nothing: the transcript, the typing indicator, the input
  and the list of requests made are as before, and nothing is thrown.
\<close>

theorem blank_input_is_noop:
  assumes "trim (textarea_value w) = []"
  shows "onSend now net w = (None, w) \<and> step (Trigger now) (w, None) = Some (w, None)"
  using assms by (simp add: onSend_def onSend_enter_blank)

theorem blank_input_is_noop_witness:
  "trim (textarea_value (example_widget\<lparr>textarea_value := [CHR '' '', CHR 0x09, CHR 0x0A]\<rparr>)) = [] \<and>
   onSend 1000 (Rejected ''offline'')
     (example_widget\<lparr>textarea_value := [CHR '' '', CHR 0x09, CHR 0x0A]\<rparr>) =
     (None, example_widget\<lparr>textarea_value := [CHR '' '', CHR 0x09, CHR 0x0A]\<rparr>)"
  using blank_input_is_noop
    [of "example_widget\<lparr>textarea_value := [CHR '' '', CHR 0x09, CHR 0x0A]\<rparr>"
        1000 "Rejected ''offline''"]
  by (simp add: trim_def is_space_def)

text \<open>
  C6, as amended. A widget's session id is the one the constructor chose for as long
  as the widget lives, and every request it makes carries that id in its payload,
  however its sends overlap. It is the session id the host supplied when the host
  supplied a non-empty one, and \<^verbatim>\<open>sess_\<close> followed by random text otherwise. At any
  state a send leaves the session id as it is and makes at most one request, which
  carries it.
\<close>

theorem session_id_stable:
  "list_all (\<lambda>r. get_prop (body r) ''sessionId'' =
                    Some (JStr (sessionId (constructor os rnd href))))
     (requests (fst (interleaved acts (constructor os rnd href, [])))) \<and>
   sessionId (fst (interleaved acts (constructor os rnd href, []))) =
     sessionId (constructor os rnd href) \<and>
   sessionId (constructor os rnd href) =
     (case opt_sessionId os of
        None \<Rightarrow> ''sess_'' @ rnd
      | Some s \<Rightarrow> if s = [] then ''sess_'' @ rnd else s) \<and>
   sessionId (snd (onSend now net v)) = sessionId v \<and>
   requests (snd (onSend now net v)) = requests v @
     (if trim (textarea_value v) = [] \<or> endpoint (opts v) = [] then []
      else [\<lparr>url = endpoint (opts v),
             body = payload (trim (textarea_value v)) (sessionId v) (location_href v)\<rparr>]) \<and>
   get_prop (payload (trim (textarea_value v)) (sessionId v) (location_href v)) ''sessionId'' =
     Some (JStr (sessionId v))"
proof -
  have "list_all (\<lambda>r. get_prop (body r) ''sessionId'' =
                    Some (JStr (sessionId (constructor os rnd href))))
          (requests (constructor os rnd href))"
    by (simp add: constructor_def)
  then have "sessionId (fst (interleaved acts (constructor os rnd href, []))) =
      sessionId (constructor os rnd href) \<and>
      list_all (\<lambda>r. get_prop (body r) ''sessionId'' =
                    Some (JStr (sessionId (constructor os rnd href))))
        (requests (fst (interleaved acts (constructor os rnd href, []))))"
    by (rule interleaved_session)
  moreover have "sessionId (constructor os rnd href) =
     (case opt_sessionId os of
        None \<Rightarrow> ''sess_'' @ rnd
      | Some s \<Rightarrow> if s = [] then ''sess_'' @ rnd else s)"
    by (simp add: constructor_def)
  ultimately show ?thesis by (simp add: onSend_requests)
qed

theorem session_id_stable_witness:
  "map (\<lambda>r. get_prop (body r) ''sessionId'')
     (requests (fst (interleaved example_overlap (example_widget, [])))) =
     [Some (JStr ''visitor-7''), Some (JStr ''visitor-7'')] \<and>
   map (\<lambda>r. get_prop (body r) ''message'')
     (requests (fst (interleaved example_overlap (example_widget, [])))) =
     [Some (JStr ''first''), Some (JStr ''second'')] \<and>
   messages (fst (interleaved example_overlap (example_widget, []))) =
     [Msg User ''first'', Msg User ''second'', Msg Bot ''two'',
      Msg Bot ''Sorry, something went wrong. Please try again later.''] \<and>
   sessionId (fst (interleaved example_overlap (example_widget, []))) = ''visitor-7''"
proof -
  have ran: "requests (fst (interleaved example_overlap (example_widget, []))) =
      [\<lparr>url = ''https://example.test/webhook/chat'',
        body = payload ''first'' ''visitor-7'' ''https://host.test/page''\<rparr>,
       \<lparr>url = ''https://example.test/webhook/chat'',
        body = payload ''second'' ''visitor-7'' ''https://host.test/page''\<rparr>]"
    by (simp add: example_overlap_def example_widget_def constructor_def onSend_enter_def
          appendMsg_def showTyping_def hideTyping_def sendMessageToEndpoint_request_def
          sendMessageToEndpoint_response_def render_body_def onSend_settle_def ok_def trim_def
          is_space_def Let_def)
  have msgs: "messages (fst (interleaved example_overlap (example_widget, []))) =
     [Msg User ''first'', Msg User ''second'', Msg Bot ''two'',
      Msg Bot ''Sorry, something went wrong. Please try again later.'']"
    by (simp add: example_overlap_def example_widget_def constructor_def onSend_enter_def
          appendMsg_def showTyping_def hideTyping_def sendMessageToEndpoint_request_def
          sendMessageToEndpoint_response_def render_body_def onSend_settle_def ok_def trim_def
          is_space_def Let_def apology_def)
  show ?thesis
    using ran msgs
      session_id_stable
        [of "opts example_widget" "''k3x9a1b''" "''https://host.test/page''" example_overlap
            0 "Rejected []" example_widget]
    by (simp add: example_widget_def constructor_def)
qed

text \<open>
  A host that supplies the empty string as session id gets a generated one.
\<close>

theorem session_id_empty_counterexample:
  "opt_sessionId \<lparr>endpoint = ''https://example.test/webhook/chat'', opt_sessionId = Some [],
                   onMessageReceived = None\<rparr> = Some [] \<and>
   sessionId (constructor
      \<lparr>endpoint = ''https://example.test/webhook/chat'', opt_sessionId = Some [],
        onMessageReceived = None\<rparr> ''k3x9a1b'' ''https://host.test/page'') = ''sess_k3x9a1b'' \<and>
   map (\<lambda>r. get_prop (body r) ''sessionId'')
     (requests (sends [(''hi'', 1000, Rejected ''offline'')]
        (constructor
           \<lparr>endpoint = ''https://example.test/webhook/chat'', opt_sessionId = Some [],
             onMessageReceived = None\<rparr> ''k3x9a1b'' ''https://host.test/page''))) =
     [Some (JStr ''sess_k3x9a1b'')]"
  by (simp add: constructor_def onSend_requests trim_def is_space_def)

text \<open>
  C7. When the host's observer throws, \<^verbatim>\<open>_appendMsg\<close> still returns normally: nothing is
  thrown to its caller, and the new entry is the last of the transcript.
\<close>

theorem observer_isolation:
  assumes "onMessageReceived (opts w) = Some f"
    and "f (notification wh txt (sessionId w)) = Some e"
  shows "fst (appendMsg txt wh w) = None \<and>
         messages (snd (appendMsg txt wh w)) =
           messages w @ [Msg (if wh = ''user'' then User else Bot) txt]"
  using assms by (simp add: appendMsg_def Let_def)

theorem observer_isolation_witness:
  "onMessageReceived (opts example_widget) = Some (\<lambda>n. Some (HostError ''observer failed'')) \<and>
   fst (appendMsg ''hello'' ''user'' example_widget) = None \<and>
   messages (snd (appendMsg ''hello'' ''user'' example_widget)) = [Msg User ''hello'']"
  using observer_isolation
    [of example_widget "\<lambda>n. Some (HostError ''observer failed'')" "''user''" "''hello''"
        "HostError ''observer failed''"]
  by (simp add: example_widget_def constructor_def)

text \<open>
  C8, as amended. When the host configured an observer, appending a message invokes
  it exactly once, with an object of three fields: \<^verbatim>\<open>who\<close>, the message's author
  (\<^verbatim>\<open>user\<close> or \<^verbatim>\<open>bot\<close>), \<^verbatim>\<open>text\<close>, the message's text, and \<^verbatim>\<open>sessionId\<close>, the widget's
  session id. At each point of a run the observer has been invoked once for every
  message of the transcript, in order.
\<close>

theorem observer_invoked_once:
  assumes "onMessageReceived (opts v) = Some g"
    and "run evs (constructor os rnd href, None) = Some (w, p)"
    and "onMessageReceived os = Some f"
  shows "notified (snd (appendMsg msg (author_name a) v)) =
           notified v @ [JObj [(''who'', JStr (author_name a)), (''text'', JStr msg),
                               (''sessionId'', JStr (sessionId v))]] \<and>
         messages (snd (appendMsg msg (author_name a) v)) = messages v @ [Msg a msg] \<and>
         notified w = concat (map (entry_notes (sessionId w)) (messages w))"
proof -
  have "notified w = concat (map (entry_notes (sessionId w)) (messages w))"
    using assms(2)
  proof (rule run_notified)
    show "onMessageReceived (opts (constructor os rnd href)) = Some f"
      using assms(3) by (simp add: constructor_def)
    show "notified (constructor os rnd href) =
        concat (map (entry_notes (sessionId (constructor os rnd href)))
          (messages (constructor os rnd href)))"
      by (simp add: constructor_def)
  qed
  moreover have "messages (snd (appendMsg msg (author_name a) v)) = messages v @ [Msg a msg]"
    by (cases a) (simp_all add: appendMsg_eq)
  ultimately show ?thesis
    using assms(1) by (simp add: appendMsg_eq notifications_def notification_def)
qed

theorem observer_invoked_once_witness:
  "onMessageReceived (opts example_widget) = Some (\<lambda>n. Some (HostError ''observer failed'')) \<and>
   run example_run (example_widget, None) =
     Some (fst (the (run example_run (example_widget, None))), Some (2000, None)) \<and>
   notified (snd (appendMsg ''hello'' ''bot'' example_widget)) =
     [JObj [(''who'', JStr ''bot''), (''text'', JStr ''hello''),
            (''sessionId'', JStr ''visitor-7'')]] \<and>
   notified (fst (the (run example_run (example_widget, None)))) =
     [JObj [(''who'', JStr ''user''), (''text'', JStr ''hi there''),
            (''sessionId'', JStr ''visitor-7'')],
      JObj [(''who'', JStr ''bot''),
            (''text'', JStr ''Sorry, something went wrong. Please try again later.''),
            (''sessionId'', JStr ''visitor-7'')],
      JObj [(''who'', JStr ''user''), (''text'', JStr ''again''),
            (''sessionId'', JStr ''visitor-7'')]]"
proof -
  have ran: "run example_run (constructor (opts example_widget) ''k3x9a1b'' ''https://host.test/page'', None) =
     Some (fst (the (run example_run (example_widget, None))), Some (2000, None))"
    by (simp add: example_run_def example_widget_def constructor_def onSend_enter_def
          appendMsg_def showTyping_def hideTyping_def sendMessageToEndpoint_request_def
          sendMessageToEndpoint_response_def onSend_settle_def open_panel_def trim_def
          is_space_def Let_def)
  have msgs: "messages (fst (the (run example_run (example_widget, None)))) =
     [Msg User ''hi there'', Msg Bot ''Sorry, something went wrong. Please try again later.'',
      Msg User ''again'', Typing 2000]"
    by (simp add: example_run_def example_widget_def constructor_def onSend_enter_def
          appendMsg_def showTyping_def hideTyping_def sendMessageToEndpoint_request_def
          sendMessageToEndpoint_response_def onSend_settle_def open_panel_def trim_def
          is_space_def Let_def apology_def)
  have sid: "sessionId (fst (the (run example_run (example_widget, None)))) = ''visitor-7''"
    by (simp add: example_run_def example_widget_def constructor_def onSend_enter_def
          appendMsg_def showTyping_def hideTyping_def sendMessageToEndpoint_request_def
          sendMessageToEndpoint_response_def onSend_settle_def open_panel_def trim_def
          is_space_def Let_def apology_def)
  have obs: "onMessageReceived (opts example_widget) = Some (\<lambda>n. Some (HostError ''observer failed''))"
    by (simp add: example_widget_def constructor_def)
  show ?thesis
    using ran msgs sid obs observer_invoked_once [OF obs ran obs, where a = Bot and msg = "''hello''"]
    by (simp add: example_widget_def constructor_def notification_def)
qed

text \<open>
  The object the observer receives has no field named \<^verbatim>\<open>author\<close>: a host that reads
  \<^verbatim>\<open>author\<close> from it gets \<^verbatim>\<open>undefined\<close>.
\<close>

theorem observer_author_field_counterexample:
  "notified (snd (appendMsg ''hello'' ''bot'' example_widget)) =
     [JObj [(''who'', JStr ''bot''), (''text'', JStr ''hello''),
            (''sessionId'', JStr ''visitor-7'')]] \<and>
   map (\<lambda>n. get_prop n ''author'') (notified (snd (appendMsg ''hello'' ''bot'' example_widget))) =
     [None]"
  by (simp add: appendMsg_def notification_def example_widget_def constructor_def Let_def)

text \<open>
  C9. For an input that is not blank, the user entry appended to the transcript and
  the \<^verbatim>\<open>message\<close> of the request payload, when a request is made, are both the trimmed
  input; appending the user entry leaves the input field as it is, and the field
  is empty from the next step on, before the typing indicator is shown and until
  the send has settled. Once it has settled the user entry stands after the
  earlier entries and only bot entries follow it.
\<close>

theorem trimmed_input_is_sent:
  assumes "trim (textarea_value w) \<noteq> []"
  shows "messages (snd (onSend_enter now w)) =
           messages w @ [Msg User (trim (textarea_value w)), Typing now] \<and>
         textarea_value (snd (appendMsg (trim (textarea_value w)) ''user'' w)) =
           textarea_value w \<and>
         textarea_value (snd (onSend_enter now w)) = [] \<and>
         textarea_value (snd (onSend now net w)) = [] \<and>
         (\<exists>bots. messages (snd (onSend now net w)) =
            filter (\<lambda>n. \<not> is_typing n) (messages w) @
            Msg User (trim (textarea_value w)) # map (Msg Bot) bots) \<and>
         requests (snd (onSend now net w)) = requests w @
           (if endpoint (opts w) = [] then []
            else [\<lparr>url = endpoint (opts w),
                   body = payload (trim (textarea_value w)) (sessionId w) (location_href w)\<rparr>])"
proof -
  have "messages (snd (onSend now net w)) =
      filter (\<lambda>n. \<not> is_typing n) (messages w) @
      Msg User (trim (textarea_value w)) #
      map (Msg Bot) (fst (exchange (endpoint (opts w)) net) @
                     fallback (snd (exchange (endpoint (opts w)) net)))"
    using assms by (simp add: onSend_messages bot_entries_def del: map_append)
  then have "\<exists>bots. messages (snd (onSend now net w)) =
      filter (\<lambda>n. \<not> is_typing n) (messages w) @
      Msg User (trim (textarea_value w)) # map (Msg Bot) bots"
    by blast
  then show ?thesis
    using assms
    by (simp add: onSend_enter_text onSend_textarea onSend_requests appendMsg_eq)
qed

theorem trimmed_input_is_sent_witness:
  "trim (textarea_value (example_widget\<lparr>textarea_value := ''  help me ''\<rparr>)) \<noteq> [] \<and>
   messages (snd (onSend_enter 1000 (example_widget\<lparr>textarea_value := ''  help me ''\<rparr>))) =
     [Msg User ''help me'', Typing 1000] \<and>
   textarea_value (snd (onSend_enter 1000 (example_widget\<lparr>textarea_value := ''  help me ''\<rparr>))) = [] \<and>
   map (\<lambda>r. get_prop (body r) ''message'')
     (requests (snd (onSend 1000 (Rejected ''offline'')
        (example_widget\<lparr>textarea_value := ''  help me ''\<rparr>)))) = [Some (JStr ''help me'')]"
  using trimmed_input_is_sent
    [of "example_widget\<lparr>textarea_value := ''  help me ''\<rparr>" 1000 "Rejected ''offline''"]
  by (simp add: example_widget_def constructor_def trim_def is_space_def)

text \<open>
  C10. Showing the typing indicator and hiding it never invoke the observer: each
  leaves the list of the observer's invocations as it was, while the typing entry
  is added or removed. In a run the observer is invoked for user and bot entries
  only, so it has been invoked at most as often as the transcript has entries
  other than typing indicators.
\<close>

theorem typing_indicator_unobserved:
  assumes "run evs (constructor os rnd href, None) = Some (w, p)"
  shows "notified (snd (showTyping now v)) = notified v \<and>
         messages (snd (showTyping now v)) = messages v @ [Typing now] \<and>
         notified (hideTyping h v) = notified v \<and>
         length (notified w) =
           (case onMessageReceived os of
              None \<Rightarrow> 0
            | Some f \<Rightarrow> length (filter (\<lambda>n. \<not> is_typing n) (messages w)))"
proof (cases "onMessageReceived os")
  case None
  have "notified w = []"
    using assms
  proof (rule run_unobserved)
    show "onMessageReceived (opts (constructor os rnd href)) = None"
      using None by (simp add: constructor_def)
    show "notified (constructor os rnd href) = []"
      by (simp add: constructor_def)
  qed
  with None show ?thesis by (simp add: showTyping_def)
next
  case (Some f)
  have "notified w = concat (map (entry_notes (sessionId w)) (messages w))"
    using assms
  proof (rule run_notified)
    show "onMessageReceived (opts (constructor os rnd href)) = Some f"
      using Some by (simp add: constructor_def)
    show "notified (constructor os rnd href) =
        concat (map (entry_notes (sessionId (constructor os rnd href)))
          (messages (constructor os rnd href)))"
      by (simp add: constructor_def)
  qed
  with Some show ?thesis by (simp add: showTyping_def length_entry_notes)
qed

theorem typing_indicator_unobserved_witness:
  "run example_run (example_widget, None) =
     Some (fst (the (run example_run (example_widget, None))), Some (2000, None)) \<and>
   typing_count (messages (fst (the (run example_run (example_widget, None))))) = 1 \<and>
   length (messages (fst (the (run example_run (example_widget, None))))) = 4 \<and>
   length (notified (fst (the (run example_run (example_widget, None))))) = 3"
proof -
  have ran: "run example_run (constructor (opts example_widget) ''k3x9a1b'' ''https://host.test/page'', None) =
     Some (fst (the (run example_run (example_widget, None))), Some (2000, None))"
    by (simp add: example_run_def example_widget_def constructor_def onSend_enter_def
          appendMsg_def showTyping_def hideTyping_def sendMessageToEndpoint_request_def
          sendMessageToEndpoint_response_def onSend_settle_def open_panel_def trim_def
          is_space_def Let_def)
  have msgs: "messages (fst (the (run example_run (example_widget, None)))) =
     [Msg User ''hi there'', Msg Bot ''Sorry, something went wrong. Please try again later.'',
      Msg User ''again'', Typing 2000]"
    by (simp add: example_run_def example_widget_def constructor_def onSend_enter_def
          appendMsg_def showTyping_def hideTyping_def sendMessageToEndpoint_request_def
          sendMessageToEndpoint_response_def onSend_settle_def open_panel_def trim_def
          is_space_def Let_def apology_def)
  show ?thesis
    using ran msgs typing_indicator_unobserved [OF ran]
    by (simp add: example_widget_def constructor_def)
qed

end
